theory Spec2Isabelle
  imports
    Complex_Main
    "HOL-Library.Multiset"
    "HOL-Library.Char_ord"
    "HOL-Library.List_Lexorder"
    "HOL-Library.Product_Lexorder"
begin

section \<open>Ingestion pipeline: data model\<close>

text \<open>
  The processor of \<^verbatim>\<open>attendance_processor.py\<close> receives a message from the transport,
  decodes its bytes as JSON, asks the Bloom filter about the student, writes one row to the
  table \<^verbatim>\<open>attendance\<close>, adds the student to the HyperLogLog of the lecture when the
  filter said yes, and acknowledges; any exception raised on the way is caught by the
  handler, which logs it and negatively acknowledges.

  A decoded JSON value, as \<^verbatim>\<open>json.loads\<close> returns it. An object is the list of its
  items (the dict's keys are unique); a float is kept as its literal.
\<close>

datatype json =
    JNull
  | JBool bool
  | JInt int
  | JFloat string
  | JStr string
  | JArr "json list"
  | JObj "(string \<times> json) list"

text \<open>The two backends whose calls can fail for reasons of their own.\<close>

datatype backend = Redis | Cassandra

text \<open>
  The exceptions that reach the handler \<^verbatim>\<open>except Exception as e\<close>: those of decoding
  and of reading the fields, those of the clients' and servers' checks of the values, and
  a backend's failure.
\<close>

datatype error =
    DecodeError
  | KeyError string
  | TypeError
  | ValueError
  | DataError
  | InvalidRequest
  | StoreError backend

text \<open>
  A row of the table created by \<^verbatim>\<open>_setup_cassandra\<close>:
  \<^verbatim>\<open>student_id int, lecture_id text, timestamp timestamp, is_valid boolean,
  PRIMARY KEY ((lecture_id), timestamp, student_id)\<close>.
  A CQL timestamp is a number of milliseconds since the epoch.
\<close>

record row =
  student_id :: int
  lecture_id :: string
  timestamp :: int
  is_valid :: bool

text \<open>What the loop body does to the outside, in the order it does it.\<close>

datatype effect =
    Inserted row
  | PfAdded string json
  | LogInfo json bool
  | LogError error
  | Acked nat
  | Nacked nat

record message =
  message_id :: nat
  msg_data :: string

text \<open>
  The stores and the record of effects. \<open>bloom\<close> is the answer of \<^verbatim>\<open>BF.EXISTS\<close> on
  the filter (false positives included); the processor never writes to the filter.
  \<open>hll\<close> holds, for each HyperLogLog key that exists, the values added to it; the keys
  of the HyperLogLogs are kept apart from the filter's key.
\<close>

record state =
  attendance :: "row list"
  bloom :: "json \<Rightarrow> bool"
  hll :: "string \<rightharpoonup> json set"
  trace :: "effect list"

text \<open>
  Which of the three backend calls of one delivery fail for reasons of the backend
  (connection lost, no host available, timeout).
\<close>

record faults =
  exists_fails :: bool
  insert_fails :: bool
  pfadd_fails :: bool

text \<open>
  Library functions and configuration constants the processor uses, taken as parameters:
  \<open>loads\<close> is \<^verbatim>\<open>json.loads(msg.data().decode())\<close> (\<open>None\<close> when it raises),
  \<open>fromisoformat\<close> is \<^verbatim>\<open>datetime.fromisoformat\<close> on a string (\<open>None\<close> when it
  raises \<^verbatim>\<open>ValueError\<close>), \<open>cql_timestamp\<close> is the driver's encoding of a datetime,
  \<open>py_str\<close> is Python's \<^verbatim>\<open>str()\<close> on a value that is not a string,
  \<open>HLL_KEY_PREFIX\<close> comes from \<^verbatim>\<open>config/config.py\<close>, and \<open>estimate\<close> is the
  approximate count \<^verbatim>\<open>PFCOUNT\<close> answers for a key that exists.
\<close>

record 'dt config =
  loads :: "string \<Rightarrow> json option"
  fromisoformat :: "string \<Rightarrow> 'dt option"
  cql_timestamp :: "'dt \<Rightarrow> int"
  py_str :: "json \<Rightarrow> string"
  HLL_KEY_PREFIX :: string
  estimate :: "json set \<Rightarrow> nat"

section \<open>Ingestion pipeline: the steps of the loop body\<close>

text \<open>\<^verbatim>\<open>data[key]\<close>: a missing key raises KeyError, a value that is not a dict TypeError.\<close>

definition getitem :: "json \<Rightarrow> string \<Rightarrow> error + json" where
  "getitem d k =
     (case d of
        JObj kvs \<Rightarrow> (case map_of kvs k of None \<Rightarrow> Inl (KeyError k) | Some v \<Rightarrow> Inr v)
      | _ \<Rightarrow> Inl TypeError)"

text \<open>
  Lines 103 to 106: decode, then read \<^verbatim>\<open>student_id\<close>, \<^verbatim>\<open>lecture_id\<close> and
  \<^verbatim>\<open>timestamp\<close>, in this order. No other field is read.
\<close>

definition deserialize :: "'dt config \<Rightarrow> message \<Rightarrow> error + (json \<times> json \<times> 'dt)" where
  "deserialize cfg msg =
     (case loads cfg (msg_data msg) of
        None \<Rightarrow> Inl DecodeError
      | Some d \<Rightarrow>
          (case getitem d ''student_id'' of
             Inl e \<Rightarrow> Inl e
           | Inr sid \<Rightarrow>
               (case getitem d ''lecture_id'' of
                  Inl e \<Rightarrow> Inl e
                | Inr lid \<Rightarrow>
                    (case getitem d ''timestamp'' of
                       Inl e \<Rightarrow> Inl e
                     | Inr (JStr t) \<Rightarrow>
                         (case fromisoformat cfg t of
                            None \<Rightarrow> Inl ValueError
                          | Some ts \<Rightarrow> Inr (sid, lid, ts))
                     | Inr _ \<Rightarrow> Inl TypeError))))"

text \<open>The values the Redis client encodes; it raises DataError on the others.\<close>

fun redis_encodable :: "json \<Rightarrow> bool" where
  "redis_encodable (JInt _) = True"
| "redis_encodable (JFloat _) = True"
| "redis_encodable (JStr _) = True"
| "redis_encodable _ = False"

text \<open>
  Lines 109 to 113: \<^verbatim>\<open>bool(execute_command('BF.EXISTS', key, student_id))\<close>. The
  client connects before it encodes the arguments.
\<close>

definition bf_exists :: "faults \<Rightarrow> state \<Rightarrow> json \<Rightarrow> error + bool" where
  "bf_exists f s v =
     (if exists_fails f then Inl (StoreError Redis)
      else if \<not> redis_encodable v then Inl DataError
      else Inr (bloom s v))"

text \<open>The primary key of the table: partition key, then the clustering columns.\<close>

definition pk :: "row \<Rightarrow> string \<times> int \<times> int" where
  "pk r = (lecture_id r, timestamp r, student_id r)"

text \<open>
  The row the server makes of the bound values, when their types fit the columns: an
  \<^verbatim>\<open>int\<close> column takes a 32-bit integer, the partition key a non-empty text.
\<close>

definition cql_row :: "'dt config \<Rightarrow> json \<Rightarrow> json \<Rightarrow> 'dt \<Rightarrow> bool \<Rightarrow> row option" where
  "cql_row cfg sid lid ts v =
     (case (sid, lid) of
        (JInt i, JStr l) \<Rightarrow>
          (if - (2 ^ 31) \<le> i \<and> i < 2 ^ 31 \<and> l \<noteq> []
           then Some \<lparr>student_id = i, lecture_id = l, timestamp = cql_timestamp cfg ts, is_valid = v\<rparr>
           else None)
      | _ \<Rightarrow> None)"

text \<open>An \<^verbatim>\<open>INSERT\<close> replaces the row that has the same primary key, if there is one.\<close>

definition upsert :: "row \<Rightarrow> row list \<Rightarrow> row list" where
  "upsert r rows = filter (\<lambda>x. pk x \<noteq> pk r) rows @ [r]"

text \<open>Lines 116 to 124: the \<^verbatim>\<open>INSERT INTO attendance\<close>, whatever \<open>is_valid\<close> is.\<close>

definition cassandra_insert ::
  "'dt config \<Rightarrow> faults \<Rightarrow> state \<Rightarrow> json \<Rightarrow> json \<Rightarrow> 'dt \<Rightarrow> bool \<Rightarrow> error + state" where
  "cassandra_insert cfg f s sid lid ts v =
     (if insert_fails f then Inl (StoreError Cassandra)
      else
        (case cql_row cfg sid lid ts v of
           None \<Rightarrow> Inl InvalidRequest
         | Some r \<Rightarrow>
             Inr (s\<lparr>attendance := upsert r (attendance s), trace := trace s @ [Inserted r]\<rparr>)))"

text \<open>Line 128: \<^verbatim>\<open>f"{HLL_KEY_PREFIX}{lecture_id}"\<close>; a string formats as itself.\<close>

definition hll_key :: "'dt config \<Rightarrow> json \<Rightarrow> string" where
  "hll_key cfg lid = HLL_KEY_PREFIX cfg @ (case lid of JStr l \<Rightarrow> l | _ \<Rightarrow> py_str cfg lid)"

text \<open>Line 129: \<^verbatim>\<open>pfadd(hll_key, student_id)\<close> creates the key when it is missing.\<close>

definition pfadd :: "faults \<Rightarrow> state \<Rightarrow> string \<Rightarrow> json \<Rightarrow> error + state" where
  "pfadd f s k v =
     (if pfadd_fails f then Inl (StoreError Redis)
      else if \<not> redis_encodable v then Inl DataError
      else
        Inr (s\<lparr>hll := (hll s)(k \<mapsto> insert v (case hll s k of None \<Rightarrow> {} | Some vs \<Rightarrow> vs)),
               trace := trace s @ [PfAdded k v]\<rparr>))"

text \<open>
  Lines 103 to 131, the statements of the \<^verbatim>\<open>try\<close> block before the acknowledgment:
  the state they leave, and the exception that stopped them, if any. What a statement did
  before a later one raised stays done.
\<close>

definition attempt :: "'dt config \<Rightarrow> faults \<Rightarrow> state \<Rightarrow> message \<Rightarrow> state \<times> error option" where
  "attempt cfg f s msg =
     (case deserialize cfg msg of
        Inl e \<Rightarrow> (s, Some e)
      | Inr (sid, lid, ts) \<Rightarrow>
          (case bf_exists f s sid of
             Inl e \<Rightarrow> (s, Some e)
           | Inr v \<Rightarrow>
               (case cassandra_insert cfg f s sid lid ts v of
                  Inl e \<Rightarrow> (s, Some e)
                | Inr s1 \<Rightarrow>
                    (case (if v then pfadd f s1 (hll_key cfg lid) sid else Inr s1) of
                       Inl e \<Rightarrow> (s1, Some e)
                     | Inr s2 \<Rightarrow> (s2\<lparr>trace := trace s2 @ [LogInfo sid v]\<rparr>, None)))))"

text \<open>
  One iteration of the loop of \<^verbatim>\<open>process_attendance\<close>, lines 101 to 136: the
  acknowledgment closes the \<^verbatim>\<open>try\<close> block, the handler logs the exception and
  negatively acknowledges. The two calls on the consumer do not raise.
\<close>

definition process_message :: "'dt config \<Rightarrow> faults \<Rightarrow> state \<Rightarrow> message \<Rightarrow> state" where
  "process_message cfg f s msg =
     (case attempt cfg f s msg of
        (s', None) \<Rightarrow> s'\<lparr>trace := trace s' @ [Acked (message_id msg)]\<rparr>
      | (s', Some e) \<Rightarrow> s'\<lparr>trace := trace s' @ [LogError e, Nacked (message_id msg)]\<rparr>)"

text \<open>The effects of one iteration: what it appended to the record of effects.\<close>

definition emitted :: "'dt config \<Rightarrow> faults \<Rightarrow> state \<Rightarrow> message \<Rightarrow> effect list" where
  "emitted cfg f s msg = drop (length (trace s)) (trace (process_message cfg f s msg))"

text \<open>
  The loop \<^verbatim>\<open>while True: msg = self.consumer.receive() ...\<close> on the deliveries it
  receives until it is interrupted, each with the faults of its backend calls. The set-up
  of the filter before the loop and the clean-up after it touch neither the table nor the
  estimators.
\<close>

fun process_attendance :: "'dt config \<Rightarrow> state \<Rightarrow> (faults \<times> message) list \<Rightarrow> state" where
  "process_attendance cfg s [] = s"
| "process_attendance cfg s ((f, msg) # ds) = process_attendance cfg (process_message cfg f s msg) ds"

text \<open>
  \<^verbatim>\<open>PFCOUNT\<close> answers 0 for a key that does not exist; a \<^verbatim>\<open>SELECT\<close> on one
  partition returns its rows in clustering order (timestamp, then student_id).
\<close>

definition pfcount :: "'dt config \<Rightarrow> state \<Rightarrow> string \<Rightarrow> nat" where
  "pfcount cfg s k = (case hll s k of None \<Rightarrow> 0 | Some vs \<Rightarrow> estimate cfg vs)"

definition select_partition :: "row list \<Rightarrow> string \<Rightarrow> row list" where
  "select_partition rows l =
     sort_key (\<lambda>r. (timestamp r, student_id r)) (filter (\<lambda>r. lecture_id r = l) rows)"



section \<open>Analytics engine\<close>

text \<open>
  \<^verbatim>\<open>_fetch_attendance_data\<close>, lines 19 to 52: the distinct partition keys, then the rows
  of each partition; the data frame is the list of the rows fetched, empty when there is
  no lecture or no record. The server returns the partitions in the order of their
  tokens; no insight depends on that order.
\<close>

definition fetch_attendance_data :: "row list \<Rightarrow> row list" where
  "fetch_attendance_data table =
     (let lecture_ids = remdups (map lecture_id table) in
      if lecture_ids = [] then []
      else concat (map (select_partition table) lecture_ids))"

text \<open>
  \<^verbatim>\<open>pd.to_datetime(df['timestamp']).dt.hour\<close> and \<^verbatim>\<open>.dt.day_name()\<close> on the
  datetimes the driver returns (UTC, no time zone). 1 January 1970 was a Thursday.
\<close>

definition hour :: "row \<Rightarrow> nat" where
  "hour r = nat ((timestamp r div 3600000) mod 24)"

definition day_of_week :: "row \<Rightarrow> string" where
  "day_of_week r =
     [''Monday'', ''Tuesday'', ''Wednesday'', ''Thursday'', ''Friday'', ''Saturday'', ''Sunday'']
       ! nat ((timestamp r div 86400000 + 3) mod 7)"

text \<open>\<^verbatim>\<open>df.groupby(column).size()\<close>: one entry per key, the keys in ascending order.\<close>

definition group_size :: "(row \<Rightarrow> 'k::linorder) \<Rightarrow> row list \<Rightarrow> ('k \<times> nat) list" where
  "group_size column df =
     map (\<lambda>k. (k, length (filter (\<lambda>r. column r = k) df))) (sort (remdups (map column df)))"

text \<open>
  A float that is a number, or NaN (\<open>None\<close>). The median of integer counts is the middle
  value, or the mean of the two middle values, which a float holds exactly for any count
  a table can reach; the median of an empty series is NaN. A comparison with NaN is false.
\<close>

type_synonym pyfloat = "rat option"

definition median :: "nat list \<Rightarrow> pyfloat" where
  "median cs =
     (let xs = sort cs; n = length xs in
      if n = 0 then None
      else if odd n then Some (of_nat (xs ! (n div 2)))
      else Some ((of_nat (xs ! (n div 2 - 1)) + of_nat (xs ! (n div 2))) / 2))"

definition exceeds :: "nat \<Rightarrow> pyfloat \<Rightarrow> bool" where
  "exceeds c t = (case t of None \<Rightarrow> False | Some x \<Rightarrow> x < of_nat c)"

text \<open>
  What the analyzer takes from pandas and numpy beyond the above: the descending sort of
  \<^verbatim>\<open>sort_values(ascending=False)\<close> (default kind, quicksort), the sample standard
  deviation, and the addition of two floats.
\<close>

record pandas =
  sort_values_desc :: "(string \<times> nat) list \<Rightarrow> (string \<times> nat) list"
  std :: "nat list \<Rightarrow> pyfloat"
  float_add :: "pyfloat \<Rightarrow> pyfloat \<Rightarrow> pyfloat"

text \<open>An insight: the keys of \<open>data\<close> are student ids or names, its values counts or dicts.\<close>

datatype key = KInt int | KStr string

datatype entry = Count nat | Nested "(key \<times> nat) list"

record insight =
  title :: string
  description :: string
  data :: "(key \<times> entry) list"

text \<open>\<^verbatim>\<open>str()\<close> of an integer, for the f-strings.\<close>

function str_nat :: "nat \<Rightarrow> string" where
  "str_nat n =
     (if n < 10 then [''0123456789'' ! n]
      else str_nat (n div 10) @ [''0123456789'' ! (n mod 10)])"
  by pat_completeness auto
termination
  by (relation "measure id") auto

definition str_int :: "int \<Rightarrow> string" where
  "str_int i = (if i < 0 then CHR ''-'' # str_nat (nat (- i)) else str_nat (nat i))"

text \<open>Lines 66 to 75: the habitual latecomers.\<close>

definition late_threshold :: nat where
  "late_threshold = 9"

definition late_students :: "row list \<Rightarrow> (int \<times> nat) list" where
  "late_students df = group_size student_id (filter (\<lambda>r. late_threshold \<le> hour r) df)"

definition frequent_late :: "row list \<Rightarrow> (int \<times> nat) list" where
  "frequent_late df =
     filter (\<lambda>(k, c). exceeds c (median (map snd (late_students df)))) (late_students df)"

definition habitual_latecomers :: "row list \<Rightarrow> insight" where
  "habitual_latecomers df =
     \<lparr>title = ''Habitual Latecomers'',
      description = ''Found '' @ str_nat (length (frequent_late df))
        @ '' students who frequently arrive after '' @ str_nat late_threshold @ '':00 AM'',
      data = map (\<lambda>(k, c). (KInt k, Count c)) (frequent_late df)\<rparr>"

text \<open>Lines 78 to 85: attendance by day of the week.\<close>

definition attendance_by_day :: "row list \<Rightarrow> insight" where
  "attendance_by_day df =
     \<lparr>title = ''Attendance by Day'',
      description = ''Distribution of attendance across different days'',
      data = map (\<lambda>(k, c). (KStr k, Count c)) (group_size day_of_week df)\<rparr>"

text \<open>
  Lines 88 to 97: the lectures by number of events, descending; \<^verbatim>\<open>head(3)\<close> and
  \<^verbatim>\<open>tail(3)\<close> of that series.
\<close>

definition lecture_attendance ::
  "((string \<times> nat) list \<Rightarrow> (string \<times> nat) list) \<Rightarrow> row list \<Rightarrow> (string \<times> nat) list" where
  "lecture_attendance srt df = srt (group_size lecture_id df)"

definition most_attended ::
  "((string \<times> nat) list \<Rightarrow> (string \<times> nat) list) \<Rightarrow> row list \<Rightarrow> (string \<times> nat) list" where
  "most_attended srt df = take 3 (lecture_attendance srt df)"

definition least_attended ::
  "((string \<times> nat) list \<Rightarrow> (string \<times> nat) list) \<Rightarrow> row list \<Rightarrow> (string \<times> nat) list" where
  "least_attended srt df =
     drop (length (lecture_attendance srt df) - 3) (lecture_attendance srt df)"

definition lecture_rankings ::
  "((string \<times> nat) list \<Rightarrow> (string \<times> nat) list) \<Rightarrow> row list \<Rightarrow> insight" where
  "lecture_rankings srt df =
     \<lparr>title = ''Lecture Attendance Rankings'',
      description = ''Most and least attended lectures'',
      data =
        [(KStr ''most_attended'', Nested (map (\<lambda>(k, c). (KStr k, c)) (most_attended srt df))),
         (KStr ''least_attended'', Nested (map (\<lambda>(k, c). (KStr k, c)) (least_attended srt df)))]\<rparr>"

text \<open>Lines 100 to 109: the students whose count exceeds median plus standard deviation.\<close>

definition consistent_students :: "pandas \<Rightarrow> row list \<Rightarrow> (int \<times> nat) list" where
  "consistent_students pd df =
     (let student_consistency = group_size student_id df;
          cs = map snd student_consistency in
      filter (\<lambda>(k, c). exceeds c (float_add pd (median cs) (std pd cs))) student_consistency)"

definition consistent_attendees :: "pandas \<Rightarrow> row list \<Rightarrow> insight" where
  "consistent_attendees pd df =
     \<lparr>title = ''Most Consistent Attendees'',
      description = ''Students with above-average attendance'',
      data = map (\<lambda>(k, c). (KInt k, Count c)) (consistent_students pd df)\<rparr>"

text \<open>Lines 112 to 118: the invalid attempts by student.\<close>

definition invalid_attempts :: "row list \<Rightarrow> insight" where
  "invalid_attempts df =
     (let invalid = group_size student_id (filter (\<lambda>r. \<not> is_valid r) df) in
      \<lparr>title = ''Invalid Attendance Attempts'',
       description = ''Number of invalid attendance attempts by student ID'',
       data = (if invalid \<noteq> [] then map (\<lambda>(k, c). (KInt k, Count c)) invalid else [])\<rparr>)"

text \<open>\<^verbatim>\<open>generate_insights\<close>, lines 54 to 120, on the table it reads.\<close>

definition generate_insights :: "pandas \<Rightarrow> row list \<Rightarrow> insight list" where
  "generate_insights pd table =
     (let df = fetch_attendance_data table in
      if df = [] then []
      else
        [habitual_latecomers df,
         attendance_by_day df,
         lecture_rankings (sort_values_desc pd) df,
         consistent_attendees pd df,
         invalid_attempts df])"

text \<open>
  \<^verbatim>\<open>print_insights\<close>, lines 122 to 142: the texts given to \<^verbatim>\<open>print\<close>, one per call.
\<close>

definition str_key :: "key \<Rightarrow> string" where
  "str_key k = (case k of KInt i \<Rightarrow> str_int i | KStr s \<Rightarrow> s)"

fun print_item :: "key \<times> entry \<Rightarrow> string list" where
  "print_item (k, Nested d) =
     (CHR 0x0A # str_key k @ '':'')
       # map (\<lambda>(k', v). ''  '' @ str_key k' @ '': '' @ str_nat v) d"
| "print_item (k, Count v) = [str_key k @ '': '' @ str_nat v]"

definition print_insight :: "insight \<Rightarrow> string list" where
  "print_insight i =
     [CHR 0x0A # ''=== '' @ title i @ '' ==='', description i, ''Data:'']
       @ (if data i \<noteq> [] then concat (map print_item (data i)) else [''No data available''])
       @ [replicate 50 CHR ''-'']"

definition print_insights :: "insight list \<Rightarrow> string list" where
  "print_insights insights =
     (if insights = [] then [CHR 0x0A # ''No insights available - no attendance data found.'']
      else concat (map print_insight insights))"

section \<open>Samples and auxiliary notions\<close>

text \<open>The two signals to the transport.\<close>

definition is_signal :: "effect \<Rightarrow> bool" where
  "is_signal e = (case e of Acked _ \<Rightarrow> True | Nacked _ \<Rightarrow> True | _ \<Rightarrow> False)"


text \<open>
  Sample payloads, as \<^verbatim>\<open>data_generator.py\<close> sends them (an entry of a known student, an
  attempt of an unknown one), and variants of them: the unknown student's attempt claiming
  to be valid, an entry without \<^verbatim>\<open>event_type\<close> and \<^verbatim>\<open>is_valid\<close>, an entry without
  \<^verbatim>\<open>student_id\<close>, and a truncated text.
\<close>

definition entry_payload :: string where
  \<open>entry_payload = ''{"student_id": 12345, "timestamp": "2024-01-08T09:30:00", "lecture_id": "LECTURE_20240108", "is_valid": true, "event_type": "entry"}''\<close>

definition invalid_payload :: string where
  \<open>invalid_payload = ''{"student_id": 654321, "timestamp": "2024-01-08T09:30:00", "lecture_id": "LECTURE_20240108", "is_valid": false, "event_type": "entry"}''\<close>

definition forged_payload :: string where
  \<open>forged_payload = ''{"student_id": 654321, "timestamp": "2024-01-08T09:30:00", "lecture_id": "LECTURE_20240108", "is_valid": true, "event_type": "entry"}''\<close>

definition bare_payload :: string where
  \<open>bare_payload = ''{"student_id": 12345, "timestamp": "2024-01-08T09:30:00", "lecture_id": "LECTURE_20240108"}''\<close>

definition anonymous_payload :: string where
  \<open>anonymous_payload = ''{"timestamp": "2024-01-08T09:30:00", "lecture_id": "LECTURE_20240108", "event_type": "entry"}''\<close>

definition truncated_payload :: string where
  \<open>truncated_payload = ''{"student_id": 12345, "timest''\<close>

definition sample_object :: "int \<Rightarrow> (string \<times> json) list \<Rightarrow> json" where
  "sample_object i rest =
     JObj ([(''student_id'', JInt i), (''timestamp'', JStr ''2024-01-08T09:30:00''),
            (''lecture_id'', JStr ''LECTURE_20240108'')] @ rest)"

text \<open>\<^verbatim>\<open>json.loads\<close> on the sample payloads.\<close>

definition sample_loads :: "string \<Rightarrow> json option" where
  "sample_loads b =
     (if b = entry_payload
        then Some (sample_object 12345 [(''is_valid'', JBool True), (''event_type'', JStr ''entry'')])
      else if b = invalid_payload
        then Some (sample_object 654321 [(''is_valid'', JBool False), (''event_type'', JStr ''entry'')])
      else if b = forged_payload
        then Some (sample_object 654321 [(''is_valid'', JBool True), (''event_type'', JStr ''entry'')])
      else if b = bare_payload
        then Some (sample_object 12345 [])
      else if b = anonymous_payload
        then Some (JObj [(''timestamp'', JStr ''2024-01-08T09:30:00''),
               (''lecture_id'', JStr ''LECTURE_20240108''), (''event_type'', JStr ''entry'')])
      else None)"

text \<open>
  A configuration for the samples: datetimes are milliseconds since the epoch, and
  8 January 2024, 09:30:00 is 1704706200000.
\<close>

definition sample_config :: "int config" where
  "sample_config =
     \<lparr>loads = sample_loads,
      fromisoformat = (\<lambda>t. if t = ''2024-01-08T09:30:00'' then Some 1704706200000 else None),
      cql_timestamp = (\<lambda>t. t),
      py_str = (\<lambda>v. case v of JInt i \<Rightarrow> str_int i | _ \<Rightarrow> ''None''),
      HLL_KEY_PREFIX = ''attendance:hll:'',
      estimate = card\<rparr>"

text \<open>Empty stores, and a filter that knows the student 12345 only.\<close>

definition sample_state :: state where
  "sample_state = \<lparr>attendance = [], bloom = (\<lambda>v. v = JInt 12345), hll = Map.empty, trace = []\<rparr>"

definition no_faults :: faults where
  "no_faults = \<lparr>exists_fails = False, insert_fails = False, pfadd_fails = False\<rparr>"

definition sample_row :: "int \<Rightarrow> bool \<Rightarrow> row" where
  "sample_row i v =
     \<lparr>student_id = i, lecture_id = ''LECTURE_20240108'', timestamp = 1704706200000, is_valid = v\<rparr>"

text \<open>
  Sample tables for the analytics: events of 8 January 2024 from 09:30 on, one a minute;
  a table where two students have five late events and a third has one; and a table of
  five lectures with 10, 8, 6, 4 and 2 events.
\<close>

definition event :: "int \<Rightarrow> string \<Rightarrow> int \<Rightarrow> row" where
  "event i l minute =
     \<lparr>student_id = i, lecture_id = l, timestamp = 1704706200000 + 60000 * minute, is_valid = True\<rparr>"

definition late_table :: "row list" where
  "late_table =
     map (event 101 ''LECTURE_20240108'') [0, 1, 2, 3, 4]
     @ map (event 102 ''LECTURE_20240108'') [0, 1, 2, 3, 4]
     @ [event 103 ''LECTURE_20240108'' 0]"

definition ranking_table :: "row list" where
  "ranking_table =
     map (\<lambda>i. event i ''LECTURE_20240108'' 0) [1, 2, 3, 4, 5, 6, 7, 8, 9, 10]
     @ map (\<lambda>i. event i ''LECTURE_20240109'' 1440) [1, 2, 3, 4, 5, 6, 7, 8]
     @ map (\<lambda>i. event i ''LECTURE_20240110'' 2880) [1, 2, 3, 4, 5, 6]
     @ map (\<lambda>i. event i ''LECTURE_20240111'' 4320) [1, 2, 3, 4]
     @ map (\<lambda>i. event i ''LECTURE_20240112'' 5760) [1, 2]"

text \<open>
  A descending sort for the samples: by count, lectures of equal count in the order they
  had.
\<close>

definition stable_sort_desc :: "(string \<times> nat) list \<Rightarrow> (string \<times> nat) list" where
  "stable_sort_desc xs = rev (sort_key snd (rev xs))"

section \<open>Properties of the ingestion pipeline\<close>

lemma trace_cassandra_insert:
  "cassandra_insert cfg f s sid lid ts v = Inr s1 \<Longrightarrow>
   \<exists>r. cql_row cfg sid lid ts v = Some r \<and> trace s1 = trace s @ [Inserted r]
     \<and> attendance s1 = upsert r (attendance s) \<and> hll s1 = hll s \<and> bloom s1 = bloom s"
  by (auto simp: cassandra_insert_def split: if_splits option.splits)

lemma trace_pfadd:
  "pfadd f s k v = Inr s2 \<Longrightarrow>
   trace s2 = trace s @ [PfAdded k v] \<and> attendance s2 = attendance s \<and> bloom s2 = bloom s
     \<and> hll s2 = (hll s)(k \<mapsto> insert v (case hll s k of None \<Rightarrow> {} | Some vs \<Rightarrow> vs))"
  by (auto simp: pfadd_def split: if_splits)


lemma emitted_exists_fails:
  "deserialize cfg msg = Inr (sid, lid, ts) \<Longrightarrow> bf_exists f s sid = Inl e \<Longrightarrow>
   emitted cfg f s msg = [LogError e, Nacked (message_id msg)]"
  by (simp add: emitted_def process_message_def attempt_def)

lemma emitted_insert_fails:
  "deserialize cfg msg = Inr (sid, lid, ts) \<Longrightarrow> bf_exists f s sid = Inr v \<Longrightarrow>
   cassandra_insert cfg f s sid lid ts v = Inl e \<Longrightarrow>
   emitted cfg f s msg = [LogError e, Nacked (message_id msg)]"
  by (simp add: emitted_def process_message_def attempt_def)

lemma emitted_pfadd_fails:
  "deserialize cfg msg = Inr (sid, lid, ts) \<Longrightarrow> bf_exists f s sid = Inr True \<Longrightarrow>
   cassandra_insert cfg f s sid lid ts True = Inr s1 \<Longrightarrow>
   pfadd f s1 (hll_key cfg lid) sid = Inl e \<Longrightarrow>
   \<exists>r. cql_row cfg sid lid ts True = Some r \<and>
     emitted cfg f s msg = [Inserted r, LogError e, Nacked (message_id msg)]"
  by (auto simp: emitted_def process_message_def attempt_def dest!: trace_cassandra_insert)

lemma emitted_valid:
  "deserialize cfg msg = Inr (sid, lid, ts) \<Longrightarrow> bf_exists f s sid = Inr True \<Longrightarrow>
   cassandra_insert cfg f s sid lid ts True = Inr s1 \<Longrightarrow>
   pfadd f s1 (hll_key cfg lid) sid = Inr s2 \<Longrightarrow>
   \<exists>r. cql_row cfg sid lid ts True = Some r \<and>
     emitted cfg f s msg =
       [Inserted r, PfAdded (hll_key cfg lid) sid, LogInfo sid True, Acked (message_id msg)]"
  by (auto simp: emitted_def process_message_def attempt_def dest!: trace_cassandra_insert trace_pfadd)

lemma emitted_invalid:
  "deserialize cfg msg = Inr (sid, lid, ts) \<Longrightarrow> bf_exists f s sid = Inr False \<Longrightarrow>
   cassandra_insert cfg f s sid lid ts False = Inr s1 \<Longrightarrow>
   \<exists>r. cql_row cfg sid lid ts False = Some r \<and>
     emitted cfg f s msg = [Inserted r, LogInfo sid False, Acked (message_id msg)]"
  by (auto simp: emitted_def process_message_def attempt_def dest!: trace_cassandra_insert)


lemma attempt_shape:
  "(\<exists>e. attempt cfg f s msg = (s, Some e)
      \<and> (deserialize cfg msg = Inl e
         \<or> (\<exists>sid lid ts. deserialize cfg msg = Inr (sid, lid, ts) \<and> (bf_exists f s sid = Inl e
              \<or> (\<exists>v. bf_exists f s sid = Inr v \<and> cassandra_insert cfg f s sid lid ts v = Inl e)))))
   \<or> (\<exists>e sid lid ts s1 r. attempt cfg f s msg = (s1, Some e)
      \<and> deserialize cfg msg = Inr (sid, lid, ts) \<and> bf_exists f s sid = Inr True
      \<and> cassandra_insert cfg f s sid lid ts True = Inr s1 \<and> cql_row cfg sid lid ts True = Some r
      \<and> pfadd f s1 (hll_key cfg lid) sid = Inl e \<and> trace s1 = trace s @ [Inserted r])
   \<or> (\<exists>sid lid ts s1 s2 r. attempt cfg f s msg = (s2\<lparr>trace := trace s2 @ [LogInfo sid True]\<rparr>, None)
      \<and> deserialize cfg msg = Inr (sid, lid, ts) \<and> bf_exists f s sid = Inr True
      \<and> cassandra_insert cfg f s sid lid ts True = Inr s1 \<and> cql_row cfg sid lid ts True = Some r
      \<and> pfadd f s1 (hll_key cfg lid) sid = Inr s2
      \<and> trace s2 = trace s @ [Inserted r, PfAdded (hll_key cfg lid) sid])
   \<or> (\<exists>sid lid ts s1 r. attempt cfg f s msg = (s1\<lparr>trace := trace s1 @ [LogInfo sid False]\<rparr>, None)
      \<and> deserialize cfg msg = Inr (sid, lid, ts) \<and> bf_exists f s sid = Inr False
      \<and> cassandra_insert cfg f s sid lid ts False = Inr s1 \<and> cql_row cfg sid lid ts False = Some r
      \<and> trace s1 = trace s @ [Inserted r])"
proof (cases "deserialize cfg msg")
  case (Inl e)
  then show ?thesis by (simp add: attempt_def)
next
  case (Inr p)
  obtain sid lid ts where p: "p = (sid, lid, ts)" by (cases p) auto
  note d = Inr [unfolded p]
  show ?thesis
  proof (cases "bf_exists f s sid")
    case (Inl e)
    with d show ?thesis by (simp add: attempt_def)
  next
    case v: (Inr v)
    show ?thesis
    proof (cases "cassandra_insert cfg f s sid lid ts v")
      case (Inl e)
      with d v show ?thesis by (simp add: attempt_def)
    next
      case s1: (Inr s1)
      from trace_cassandra_insert [OF s1] obtain r
        where r: "cql_row cfg sid lid ts v = Some r" "trace s1 = trace s @ [Inserted r]" by blast
      show ?thesis
      proof (cases v)
        case False
        with d v s1 r show ?thesis by (simp add: attempt_def)
      next
        case True
        show ?thesis
        proof (cases "pfadd f s1 (hll_key cfg lid) sid")
          case (Inl e)
          with d v s1 r True show ?thesis by (simp add: attempt_def)
        next
          case s2: (Inr s2)
          from trace_pfadd [OF s2] r have "trace s2 = trace s @ [Inserted r, PfAdded (hll_key cfg lid) sid]"
            by simp
          with d v s1 r True s2 show ?thesis by (simp add: attempt_def)
        qed
      qed
    qed
  qed
qed


lemma emitted_shape:
  "(\<exists>e. emitted cfg f s msg = [LogError e, Nacked (message_id msg)]
      \<and> attendance (process_message cfg f s msg) = attendance s
      \<and> hll (process_message cfg f s msg) = hll s
      \<and> (deserialize cfg msg = Inl e
         \<or> (\<exists>sid lid ts. deserialize cfg msg = Inr (sid, lid, ts) \<and> (bf_exists f s sid = Inl e
              \<or> (\<exists>v. bf_exists f s sid = Inr v \<and> cassandra_insert cfg f s sid lid ts v = Inl e)))))
   \<or> (\<exists>e sid lid ts s1 r. emitted cfg f s msg = [Inserted r, LogError e, Nacked (message_id msg)]
      \<and> attendance (process_message cfg f s msg) = upsert r (attendance s)
      \<and> hll (process_message cfg f s msg) = hll s
      \<and> deserialize cfg msg = Inr (sid, lid, ts) \<and> bf_exists f s sid = Inr True
      \<and> cassandra_insert cfg f s sid lid ts True = Inr s1 \<and> cql_row cfg sid lid ts True = Some r
      \<and> pfadd f s1 (hll_key cfg lid) sid = Inl e)
   \<or> (\<exists>sid lid ts s1 s2 r. emitted cfg f s msg =
        [Inserted r, PfAdded (hll_key cfg lid) sid, LogInfo sid True, Acked (message_id msg)]
      \<and> attendance (process_message cfg f s msg) = upsert r (attendance s)
      \<and> hll (process_message cfg f s msg) =
          (hll s)(hll_key cfg lid \<mapsto> insert sid (case hll s (hll_key cfg lid) of None \<Rightarrow> {} | Some vs \<Rightarrow> vs))
      \<and> deserialize cfg msg = Inr (sid, lid, ts) \<and> bf_exists f s sid = Inr True
      \<and> cassandra_insert cfg f s sid lid ts True = Inr s1 \<and> cql_row cfg sid lid ts True = Some r
      \<and> pfadd f s1 (hll_key cfg lid) sid = Inr s2)
   \<or> (\<exists>sid lid ts s1 r. emitted cfg f s msg = [Inserted r, LogInfo sid False, Acked (message_id msg)]
      \<and> attendance (process_message cfg f s msg) = upsert r (attendance s)
      \<and> hll (process_message cfg f s msg) = hll s
      \<and> deserialize cfg msg = Inr (sid, lid, ts) \<and> bf_exists f s sid = Inr False
      \<and> cassandra_insert cfg f s sid lid ts False = Inr s1 \<and> cql_row cfg sid lid ts False = Some r)"
  using attempt_shape [of cfg f s msg]
  apply (elim disjE exE conjE)
  subgoal by (simp add: emitted_def process_message_def)
  subgoal by (simp add: emitted_def process_message_def)
  subgoal by (simp add: emitted_def process_message_def)
  subgoal for e sid lid ts s1 r
    by (frule trace_cassandra_insert) (simp add: emitted_def process_message_def)
  subgoal for sid lid ts s1 s2 r
    by (frule trace_cassandra_insert, frule trace_pfadd) (simp add: emitted_def process_message_def)
  subgoal for sid lid ts s1 r
    by (frule trace_cassandra_insert) (simp add: emitted_def process_message_def)
  done


lemma acked_iff_steps_complete:
  "Acked (message_id msg) \<in> set (emitted cfg f s msg) \<longleftrightarrow>
     (\<exists>sid lid ts v s1. deserialize cfg msg = Inr (sid, lid, ts) \<and> bf_exists f s sid = Inr v
        \<and> cassandra_insert cfg f s sid lid ts v = Inr s1
        \<and> (v \<longrightarrow> (\<exists>s2. pfadd f s1 (hll_key cfg lid) sid = Inr s2)))"
  using emitted_shape [of cfg f s msg]
  by (elim disjE exE conjE) auto

lemma one_signal:
  "length (filter is_signal (emitted cfg f s msg)) = 1"
  using emitted_shape [of cfg f s msg]
  by (elim disjE exE conjE) (simp_all add: is_signal_def)

lemma nacked_iff_not_acked:
  "Nacked (message_id msg) \<in> set (emitted cfg f s msg) \<longleftrightarrow>
     Acked (message_id msg) \<notin> set (emitted cfg f s msg)"
  using emitted_shape [of cfg f s msg]
  by (elim disjE exE conjE) simp_all

lemma nacked_logs_error:
  "Nacked (message_id msg) \<in> set (emitted cfg f s msg) \<Longrightarrow>
     \<exists>pre e. emitted cfg f s msg = pre @ [LogError e, Nacked (message_id msg)]"
  using emitted_shape [of cfg f s msg]
  by (elim disjE exE conjE) simp_all

lemma ack_after_writes:
  assumes "emitted cfg f s msg = pre @ Acked (message_id msg) # post"
  shows "post = [] \<and> (\<exists>r. Inserted r \<in> set pre \<and> r \<in> set (attendance (process_message cfg f s msg))
      \<and> (is_valid r \<longrightarrow> (\<exists>k v vs. PfAdded k v \<in> set pre
            \<and> hll (process_message cfg f s msg) k = Some vs \<and> v \<in> vs)))"
  using emitted_shape [of cfg f s msg] assms
  apply (elim disjE exE conjE)
  apply (auto simp: Cons_eq_append_conv upsert_def cql_row_def split: json.splits if_splits)
  done


lemma bloom_process_message: "bloom (process_message cfg f s msg) = bloom s"
  by (auto simp: process_message_def attempt_def cassandra_insert_def pfadd_def
      split: sum.splits prod.splits option.splits if_splits)

lemma bloom_process_attendance: "bloom (process_attendance cfg s ds) = bloom s"
  by (induction ds arbitrary: s) (auto simp: bloom_process_message)

lemma bf_exists_cong: "bloom s' = bloom s \<Longrightarrow> bf_exists f s' v = bf_exists f s v"
  by (simp add: bf_exists_def)

lemma cql_row_key:
  "cql_row cfg sid lid ts v = Some r \<Longrightarrow>
     \<exists>i l. sid = JInt i \<and> lid = JStr l \<and> l \<noteq> [] \<and> pk r = (l, cql_timestamp cfg ts, i) \<and> is_valid r = v
       \<and> lecture_id r = l \<and> student_id r = i \<and> timestamp r = cql_timestamp cfg ts"
  by (auto simp: cql_row_def pk_def split: json.splits if_splits)

lemma count_pk_upsert:
  "length (filter (\<lambda>x. pk x = k) (upsert r rows)) =
     (if pk r = k then 1 else length (filter (\<lambda>x. pk x = k) rows))"
  unfolding upsert_def by (induction rows) auto

lemma attendance_process_message:
  "attendance (process_message cfg f s msg) = attendance s
   \<or> (\<exists>r. Inserted r \<in> set (emitted cfg f s msg)
        \<and> attendance (process_message cfg f s msg) = upsert r (attendance s))"
  using emitted_shape [of cfg f s msg]
  by (elim disjE exE conjE) simp_all

lemma count_pk_process_message:
  "length (filter (\<lambda>x. pk x = k) (attendance s)) = 1 \<Longrightarrow>
   length (filter (\<lambda>x. pk x = k) (attendance (process_message cfg f s msg))) = 1"
  using attendance_process_message [of cfg f s msg]
  by (auto simp: count_pk_upsert)

lemma count_pk_process_attendance:
  "length (filter (\<lambda>x. pk x = k) (attendance s)) = 1 \<Longrightarrow>
   length (filter (\<lambda>x. pk x = k) (attendance (process_attendance cfg s ds))) = 1"
proof (induction ds arbitrary: s)
  case Nil
  then show ?case by simp
next
  case (Cons d ds)
  obtain f msg where d: "d = (f, msg)" by (cases d)
  from Cons.prems have "length (filter (\<lambda>x. pk x = k) (attendance (process_message cfg f s msg))) = 1"
    by (rule count_pk_process_message)
  then show ?case unfolding d by (simp add: Cons.IH)
qed

lemma inserted_row:
  assumes "Inserted r \<in> set (emitted cfg f s msg)"
  shows "\<exists>sid lid ts v. deserialize cfg msg = Inr (sid, lid, ts) \<and> bf_exists f s sid = Inr v
      \<and> cql_row cfg sid lid ts v = Some r
      \<and> attendance (process_message cfg f s msg) = upsert r (attendance s)"
  using emitted_shape [of cfg f s msg] assms
  by (elim disjE exE conjE) auto

text \<open>
  Claim C2. Persistence is idempotent under the primary key (lecture_id, timestamp,
  student_id): once an iteration has written the row of an event, whatever its outcome,
  the table holds exactly one row with the event's key, it still does after any further
  deliveries (redeliveries of the same message among them), and processing the same
  message again leaves the number of rows unchanged.
\<close>

theorem redelivery_keeps_one_row:
  assumes "Inserted r \<in> set (emitted cfg f s msg)"
  shows "(\<exists>i l ts. deserialize cfg msg = Inr (JInt i, JStr l, ts) \<and> pk r = (l, cql_timestamp cfg ts, i))
    \<and> length (filter (\<lambda>x. pk x = pk r) (attendance (process_message cfg f s msg))) = 1
    \<and> length (filter (\<lambda>x. pk x = pk r)
          (attendance (process_attendance cfg (process_message cfg f s msg) ds))) = 1
    \<and> length (attendance (process_message cfg f' (process_message cfg f s msg) msg))
        = length (attendance (process_message cfg f s msg))"
proof -
  let ?s1 = "process_message cfg f s msg"
  from inserted_row [OF assms] obtain sid lid ts v
    where d: "deserialize cfg msg = Inr (sid, lid, ts)" and v: "bf_exists f s sid = Inr v"
      and r: "cql_row cfg sid lid ts v = Some r" and a: "attendance ?s1 = upsert r (attendance s)"
    by blast
  from cql_row_key [OF r] obtain i l
    where k: "sid = JInt i" "lid = JStr l" "pk r = (l, cql_timestamp cfg ts, i)" by blast
  have one: "length (filter (\<lambda>x. pk x = pk r) (attendance ?s1)) = 1"
    by (simp add: a count_pk_upsert)
  have again: "length (attendance (process_message cfg f' ?s1 msg)) = length (attendance ?s1)"
  proof -
    from attendance_process_message [of cfg f' ?s1 msg]
    show ?thesis
    proof (elim disjE exE conjE)
      fix r' assume i: "Inserted r' \<in> set (emitted cfg f' ?s1 msg)"
        and u: "attendance (process_message cfg f' ?s1 msg) = upsert r' (attendance ?s1)"
      from inserted_row [OF i] d obtain v' where "cql_row cfg sid lid ts v' = Some r'" by auto
      with cql_row_key [of cfg sid lid ts v' r'] k have same: "pk r' = pk r" by auto
      have "length (upsert r' (attendance ?s1))
          = length (filter (\<lambda>x. pk x \<noteq> pk r) (attendance ?s1)) + 1"
        by (simp add: upsert_def same)
      moreover have "length (attendance ?s1)
          = length (filter (\<lambda>x. pk x = pk r) (attendance ?s1))
            + length (filter (\<lambda>x. pk x \<noteq> pk r) (attendance ?s1))"
        using sum_length_filter_compl [of "\<lambda>x. pk x = pk r" "attendance ?s1"] by simp
      ultimately show ?thesis using one u by simp
    qed simp
  qed
  from d k one again count_pk_process_attendance [OF one] show ?thesis by auto
qed


lemma payloads_differ:
  "entry_payload \<noteq> invalid_payload"
  "entry_payload \<noteq> forged_payload"
  "entry_payload \<noteq> bare_payload"
  "entry_payload \<noteq> anonymous_payload"
  "entry_payload \<noteq> truncated_payload"
  "invalid_payload \<noteq> entry_payload"
  "invalid_payload \<noteq> forged_payload"
  "invalid_payload \<noteq> bare_payload"
  "invalid_payload \<noteq> anonymous_payload"
  "invalid_payload \<noteq> truncated_payload"
  "forged_payload \<noteq> entry_payload"
  "forged_payload \<noteq> invalid_payload"
  "forged_payload \<noteq> bare_payload"
  "forged_payload \<noteq> anonymous_payload"
  "forged_payload \<noteq> truncated_payload"
  "bare_payload \<noteq> entry_payload"
  "bare_payload \<noteq> invalid_payload"
  "bare_payload \<noteq> forged_payload"
  "bare_payload \<noteq> anonymous_payload"
  "bare_payload \<noteq> truncated_payload"
  "anonymous_payload \<noteq> entry_payload"
  "anonymous_payload \<noteq> invalid_payload"
  "anonymous_payload \<noteq> forged_payload"
  "anonymous_payload \<noteq> bare_payload"
  "anonymous_payload \<noteq> truncated_payload"
  "truncated_payload \<noteq> entry_payload"
  "truncated_payload \<noteq> invalid_payload"
  "truncated_payload \<noteq> forged_payload"
  "truncated_payload \<noteq> bare_payload"
  "truncated_payload \<noteq> anonymous_payload"
  by (simp_all add: entry_payload_def invalid_payload_def forged_payload_def bare_payload_def
      anonymous_payload_def truncated_payload_def)

lemma sample_config_sel:
  "loads sample_config = sample_loads"
  "fromisoformat sample_config ''2024-01-08T09:30:00'' = Some 1704706200000"
  "cql_timestamp sample_config t = t"
  "HLL_KEY_PREFIX sample_config = ''attendance:hll:''"
  "estimate sample_config = card"
  by (simp_all add: sample_config_def)

lemma sample_deserialize:
  "deserialize sample_config \<lparr>message_id = n, msg_data = entry_payload\<rparr>
     = Inr (JInt 12345, JStr ''LECTURE_20240108'', 1704706200000)"
  "deserialize sample_config \<lparr>message_id = n, msg_data = bare_payload\<rparr>
     = Inr (JInt 12345, JStr ''LECTURE_20240108'', 1704706200000)"
  "deserialize sample_config \<lparr>message_id = n, msg_data = invalid_payload\<rparr>
     = Inr (JInt 654321, JStr ''LECTURE_20240108'', 1704706200000)"
  "deserialize sample_config \<lparr>message_id = n, msg_data = forged_payload\<rparr>
     = Inr (JInt 654321, JStr ''LECTURE_20240108'', 1704706200000)"
  "deserialize sample_config \<lparr>message_id = n, msg_data = anonymous_payload\<rparr>
     = Inl (KeyError ''student_id'')"
  "deserialize sample_config \<lparr>message_id = n, msg_data = truncated_payload\<rparr> = Inl DecodeError"
  by (simp_all add: deserialize_def sample_config_sel sample_loads_def sample_object_def
      getitem_def payloads_differ)

lemma sample_cql_row:
  "cql_row sample_config (JInt 12345) (JStr ''LECTURE_20240108'') 1704706200000 v
     = Some (sample_row 12345 v)"
  "cql_row sample_config (JInt 654321) (JStr ''LECTURE_20240108'') 1704706200000 v
     = Some (sample_row 654321 v)"
  by (simp_all add: cql_row_def sample_config_sel sample_row_def)

lemmas sample_run = emitted_def process_message_def attempt_def sample_deserialize bf_exists_def
  no_faults_def sample_state_def cassandra_insert_def sample_cql_row pfadd_def hll_key_def
  sample_config_sel upsert_def pk_def sample_row_def

lemma sample_emitted_entry:
  "emitted sample_config no_faults sample_state \<lparr>message_id = 7, msg_data = entry_payload\<rparr> =
     [Inserted (sample_row 12345 True), PfAdded ''attendance:hll:LECTURE_20240108'' (JInt 12345),
      LogInfo (JInt 12345) True, Acked 7]"
  by (simp add: sample_run)

lemma sample_emitted_invalid:
  "emitted sample_config no_faults sample_state \<lparr>message_id = 8, msg_data = invalid_payload\<rparr> =
     [Inserted (sample_row 654321 False), LogInfo (JInt 654321) False, Acked 8]"
  by (simp add: sample_run)

lemma sample_emitted_truncated:
  "emitted sample_config no_faults sample_state \<lparr>message_id = 9, msg_data = truncated_payload\<rparr> =
     [LogError DecodeError, Nacked 9]"
  by (simp add: sample_run)


text \<open>
  Claim C1. An iteration acknowledges the message if and only if deserialization, the
  membership query, the insert and, for a valid student, the update of the estimator all
  return without error; otherwise it negatively acknowledges. It sends exactly one of the
  two signals, and the acknowledgment comes last: the row has been written before it, and
  for a valid row the student has been added to the estimator before it.
\<close>

theorem ack_iff_steps_complete:
  "(Acked (message_id msg) \<in> set (emitted cfg f s msg) \<longleftrightarrow>
      (\<exists>sid lid ts v s1. deserialize cfg msg = Inr (sid, lid, ts) \<and> bf_exists f s sid = Inr v
         \<and> cassandra_insert cfg f s sid lid ts v = Inr s1
         \<and> (v \<longrightarrow> (\<exists>s2. pfadd f s1 (hll_key cfg lid) sid = Inr s2))))
   \<and> (Nacked (message_id msg) \<in> set (emitted cfg f s msg) \<longleftrightarrow>
        Acked (message_id msg) \<notin> set (emitted cfg f s msg))
   \<and> length (filter is_signal (emitted cfg f s msg)) = 1
   \<and> (\<forall>pre post. emitted cfg f s msg = pre @ Acked (message_id msg) # post \<longrightarrow>
        post = [] \<and> (\<exists>r. Inserted r \<in> set pre \<and> r \<in> set (attendance (process_message cfg f s msg))
          \<and> (is_valid r \<longrightarrow> (\<exists>k v vs. PfAdded k v \<in> set pre
                \<and> hll (process_message cfg f s msg) k = Some vs \<and> v \<in> vs))))"
  using acked_iff_steps_complete [of msg cfg f s] nacked_iff_not_acked [of msg cfg f s]
    one_signal [of cfg f s msg] ack_after_writes [of cfg f s msg]
  by blast

text \<open>
  The entry of a known student, with no fault, is acknowledged; a truncated payload is
  negatively acknowledged and not acknowledged.
\<close>

theorem ack_iff_steps_complete_witness:
  "Acked 7 \<in> set (emitted sample_config no_faults sample_state \<lparr>message_id = 7, msg_data = entry_payload\<rparr>)
   \<and> Nacked 9 \<in> set (emitted sample_config no_faults sample_state \<lparr>message_id = 9, msg_data = truncated_payload\<rparr>)
   \<and> Acked 9 \<notin> set (emitted sample_config no_faults sample_state \<lparr>message_id = 9, msg_data = truncated_payload\<rparr>)"
proof -
  let ?good = "\<lparr>message_id = 7, msg_data = entry_payload\<rparr>"
  let ?bad = "\<lparr>message_id = 9, msg_data = truncated_payload\<rparr>"
  let ?done = "\<lambda>msg. \<exists>sid lid ts v s1. deserialize sample_config msg = Inr (sid, lid, ts)
      \<and> bf_exists no_faults sample_state sid = Inr v
      \<and> cassandra_insert sample_config no_faults sample_state sid lid ts v = Inr s1
      \<and> (v \<longrightarrow> (\<exists>s2. pfadd no_faults s1 (hll_key sample_config lid) sid = Inr s2))"
  note good = ack_iff_steps_complete [where msg = ?good and cfg = sample_config and f = no_faults
      and s = sample_state]
  note bad = ack_iff_steps_complete [where msg = ?bad and cfg = sample_config and f = no_faults
      and s = sample_state]
  have "?done ?good"
    by (auto simp add: sample_run)
  moreover from good
  have "Acked (message_id ?good) \<in> set (emitted sample_config no_faults sample_state ?good)
      \<longleftrightarrow> ?done ?good"
    by (rule conjunct1)
  ultimately have "Acked (message_id ?good) \<in> set (emitted sample_config no_faults sample_state ?good)"
    by blast
  then have 1: "Acked 7 \<in> set (emitted sample_config no_faults sample_state ?good)"
    by simp
  have "\<not> ?done ?bad"
    by (simp add: sample_deserialize)
  moreover from bad
  have "Acked (message_id ?bad) \<in> set (emitted sample_config no_faults sample_state ?bad)
      \<longleftrightarrow> ?done ?bad"
    by (rule conjunct1)
  ultimately have 2: "Acked (message_id ?bad) \<notin> set (emitted sample_config no_faults sample_state ?bad)"
    by blast
  from bad
  have "Nacked (message_id ?bad) \<in> set (emitted sample_config no_faults sample_state ?bad)
      \<longleftrightarrow> Acked (message_id ?bad) \<notin> set (emitted sample_config no_faults sample_state ?bad)"
    by (rule conjunct1 [OF conjunct2])
  with 2 have 3: "Nacked (message_id ?bad) \<in> set (emitted sample_config no_faults sample_state ?bad)"
    by blast
  from 1 2 3 show ?thesis by simp
qed

text \<open>
  A first delivery writes the row and fails at the estimator, so it is negatively
  acknowledged; after the redelivery the table holds one row for the event.
\<close>

theorem redelivery_keeps_one_row_witness:
  "length (filter (\<lambda>x. pk x = (''LECTURE_20240108'', 1704706200000, 12345))
      (attendance (process_attendance sample_config
        (process_message sample_config (no_faults\<lparr>pfadd_fails := True\<rparr>) sample_state
           \<lparr>message_id = 7, msg_data = entry_payload\<rparr>)
        [(no_faults, \<lparr>message_id = 7, msg_data = entry_payload\<rparr>)]))) = 1"
proof -
  let ?m = "\<lparr>message_id = 7, msg_data = entry_payload\<rparr>"
  let ?f = "no_faults\<lparr>pfadd_fails := True\<rparr>"
  have e: "emitted sample_config ?f sample_state ?m =
      [Inserted (sample_row 12345 True), LogError (StoreError Redis), Nacked 7]"
    by (simp add: sample_run)
  have "Inserted (sample_row 12345 True) \<in> set (emitted sample_config ?f sample_state ?m)"
    by (simp add: e)
  from redelivery_keeps_one_row [OF this, where ds = "[(no_faults, ?m)]"]
  show ?thesis by (simp add: pk_def sample_row_def)
qed

lemma getitem_cong:
  "map_of o1 k = map_of o2 k \<Longrightarrow> getitem (JObj o1) k = getitem (JObj o2) k"
  by (simp add: getitem_def)

lemma deserialize_fields:
  assumes "loads cfg (msg_data m1) = Some (JObj o1)" "loads cfg (msg_data m2) = Some (JObj o2)"
    and "map_of o1 ''student_id'' = map_of o2 ''student_id''"
    and "map_of o1 ''lecture_id'' = map_of o2 ''lecture_id''"
    and "map_of o1 ''timestamp'' = map_of o2 ''timestamp''"
  shows "deserialize cfg m1 = deserialize cfg m2"
  using assms(1,2) assms(3-5) [THEN getitem_cong] by (simp add: deserialize_def cong: sum.case_cong)

lemma attempt_cong:
  "deserialize cfg m1 = deserialize cfg m2 \<Longrightarrow> attempt cfg f s m1 = attempt cfg f s m2"
  by (simp add: attempt_def)

lemma inserted_iff:
  "Inserted r \<in> set (emitted cfg f s msg) \<longleftrightarrow>
     (\<exists>sid lid ts v s1. deserialize cfg msg = Inr (sid, lid, ts) \<and> bf_exists f s sid = Inr v
        \<and> cassandra_insert cfg f s sid lid ts v = Inr s1 \<and> cql_row cfg sid lid ts v = Some r)"
  using emitted_shape [of cfg f s msg]
  by (elim disjE exE conjE) auto

lemma process_message_cong:
  assumes "deserialize cfg m1 = deserialize cfg m2"
  shows "attendance (process_message cfg f s m1) = attendance (process_message cfg f s m2)"
    and "hll (process_message cfg f s m1) = hll (process_message cfg f s m2)"
    and "Inserted r \<in> set (emitted cfg f s m1) \<longleftrightarrow> Inserted r \<in> set (emitted cfg f s m2)"
  using attempt_cong [OF assms, of f s]
    by (auto simp: process_message_def inserted_iff assms split: prod.splits option.splits)

lemma inserted_is_valid:
  assumes "Inserted r \<in> set (emitted cfg f s msg)"
  shows "is_valid r = bloom s (JInt (student_id r))"
proof -
  from inserted_row [OF assms] obtain sid lid ts v
    where v: "bf_exists f s sid = Inr v" and r: "cql_row cfg sid lid ts v = Some r"
    by blast
  from cql_row_key [OF r] have "sid = JInt (student_id r)" "is_valid r = v" by auto
  with v show ?thesis by (auto simp: bf_exists_def split: if_splits)
qed

text \<open>
  Claim C4. The persisted \<open>is_valid\<close> is the filter's answer for the message's student and
  nothing else: two payloads that decode to objects agreeing on \<^verbatim>\<open>student_id\<close>,
  \<^verbatim>\<open>lecture_id\<close> and \<^verbatim>\<open>timestamp\<close>, whatever else they carry (an
  \<^verbatim>\<open>is_valid\<close> field or none), leave the same table and the same estimators and write
  the same row, and the flag of a written row is what the filter answers for its student.
\<close>

theorem validity_not_taken_from_payload:
  assumes "loads cfg (msg_data m1) = Some (JObj o1)" and "loads cfg (msg_data m2) = Some (JObj o2)"
    and "\<forall>k \<in> {''student_id'', ''lecture_id'', ''timestamp''}. map_of o1 k = map_of o2 k"
  shows "attendance (process_message cfg f s m1) = attendance (process_message cfg f s m2)
    \<and> hll (process_message cfg f s m1) = hll (process_message cfg f s m2)
    \<and> (\<forall>r. Inserted r \<in> set (emitted cfg f s m1) \<longleftrightarrow> Inserted r \<in> set (emitted cfg f s m2))
    \<and> (\<forall>r. Inserted r \<in> set (emitted cfg f s m1) \<longrightarrow> is_valid r = bloom s (JInt (student_id r)))"
proof -
  from assms have "deserialize cfg m1 = deserialize cfg m2"
    by (intro deserialize_fields [OF assms(1,2)]) simp_all
  from process_message_cong [OF this] inserted_is_valid show ?thesis
    by blast
qed

text \<open>
  An unknown student's attempt that claims \<^verbatim>\<open>"is_valid": true\<close> is stored like the one
  that says false: one row, flagged invalid.
\<close>

theorem validity_not_taken_from_payload_witness:
  "attendance (process_message sample_config no_faults sample_state \<lparr>message_id = 7, msg_data = forged_payload\<rparr>)
     = attendance (process_message sample_config no_faults sample_state \<lparr>message_id = 8, msg_data = invalid_payload\<rparr>)
   \<and> attendance (process_message sample_config no_faults sample_state \<lparr>message_id = 8, msg_data = invalid_payload\<rparr>)
     = [sample_row 654321 False]"
proof -
  let ?m1 = "\<lparr>message_id = 7, msg_data = forged_payload\<rparr>"
  let ?m2 = "\<lparr>message_id = 8, msg_data = invalid_payload\<rparr>"
  have 1: "loads sample_config (msg_data ?m1)
      = Some (JObj ([(''student_id'', JInt 654321), (''timestamp'', JStr ''2024-01-08T09:30:00''),
            (''lecture_id'', JStr ''LECTURE_20240108'')]
          @ [(''is_valid'', JBool True), (''event_type'', JStr ''entry'')]))"
    by (simp add: sample_config_sel sample_loads_def sample_object_def payloads_differ)
  have 2: "loads sample_config (msg_data ?m2)
      = Some (JObj ([(''student_id'', JInt 654321), (''timestamp'', JStr ''2024-01-08T09:30:00''),
            (''lecture_id'', JStr ''LECTURE_20240108'')]
          @ [(''is_valid'', JBool False), (''event_type'', JStr ''entry'')]))"
    by (simp add: sample_config_sel sample_loads_def sample_object_def payloads_differ)
  have "attendance (process_message sample_config no_faults sample_state ?m1)
      = attendance (process_message sample_config no_faults sample_state ?m2)"
    using validity_not_taken_from_payload [OF 1 2, of no_faults sample_state] by simp
  moreover have "attendance (process_message sample_config no_faults sample_state ?m2)
      = [sample_row 654321 False]"
    by (simp add: sample_run)
  ultimately show ?thesis by simp
qed


lemma hll_changes_only_if_valid:
  "hll (process_message cfg f s msg) \<noteq> hll s \<or> (\<exists>k x. PfAdded k x \<in> set (emitted cfg f s msg)) \<Longrightarrow>
     \<exists>sid lid ts. deserialize cfg msg = Inr (sid, lid, ts) \<and> bf_exists f s sid = Inr True"
  using emitted_shape [of cfg f s msg]
  by (elim disjE exE conjE) auto

lemma acked_estimator:
  assumes "deserialize cfg msg = Inr (sid, lid, ts)" and "bf_exists f s sid = Inr v"
    and "Acked (message_id msg) \<in> set (emitted cfg f s msg)"
  shows "(PfAdded (hll_key cfg lid) sid \<in> set (emitted cfg f s msg) \<longleftrightarrow> v)
    \<and> (\<forall>k x. PfAdded k x \<in> set (emitted cfg f s msg) \<longrightarrow> k = hll_key cfg lid \<and> x = sid)
    \<and> (\<exists>l. lid = JStr l \<and> hll_key cfg lid = HLL_KEY_PREFIX cfg @ l)
    \<and> hll (process_message cfg f s msg) =
        (if v then (hll s)(hll_key cfg lid \<mapsto>
                     insert sid (case hll s (hll_key cfg lid) of None \<Rightarrow> {} | Some vs \<Rightarrow> vs))
         else hll s)"
  using emitted_shape [of cfg f s msg] assms
  by (elim disjE exE conjE) (auto dest!: cql_row_key simp: hll_key_def)

lemma invalid_run_keeps_hll:
  assumes "\<forall>(f, m) \<in> set ds. \<forall>sid lid ts. deserialize cfg m = Inr (sid, lid, ts) \<longrightarrow> \<not> bloom s sid"
  shows "hll (process_attendance cfg s ds) = hll s"
  using assms
proof (induction ds arbitrary: s)
  case Nil
  then show ?case by simp
next
  case (Cons d ds)
  obtain f m where d: "d = (f, m)" by (cases d)
  let ?s1 = "process_message cfg f s m"
  have "\<not> (\<exists>sid lid ts. deserialize cfg m = Inr (sid, lid, ts) \<and> bf_exists f s sid = Inr True)"
    using Cons.prems d by (auto simp: bf_exists_def split: if_splits)
  with hll_changes_only_if_valid [of cfg f s m] have h: "hll ?s1 = hll s" by blast
  have "\<forall>(f, m) \<in> set ds. \<forall>sid lid ts. deserialize cfg m = Inr (sid, lid, ts) \<longrightarrow> \<not> bloom ?s1 sid"
    using Cons.prems by (simp add: bloom_process_message)
  from Cons.IH [OF this] h show ?case by (simp add: d)
qed

text \<open>
  Claim C3. For an acknowledged delivery, the student is added to the estimator of the
  message's lecture if and only if the computed \<open>is_valid\<close> is true, no other key or value
  is added, and the estimators change by exactly that. A delivery whose \<open>is_valid\<close> is not
  computed true leaves every estimator as it was and adds nothing; so does any sequence
  of deliveries of students the filter does not know, and every count stays the same.
\<close>

theorem estimator_updated_iff_valid:
  "(\<forall>sid lid ts v. deserialize cfg msg = Inr (sid, lid, ts) \<and> bf_exists f s sid = Inr v
       \<and> Acked (message_id msg) \<in> set (emitted cfg f s msg) \<longrightarrow>
      (PfAdded (hll_key cfg lid) sid \<in> set (emitted cfg f s msg) \<longleftrightarrow> v)
      \<and> (\<forall>k x. PfAdded k x \<in> set (emitted cfg f s msg) \<longrightarrow> k = hll_key cfg lid \<and> x = sid)
      \<and> (\<exists>l. lid = JStr l \<and> hll_key cfg lid = HLL_KEY_PREFIX cfg @ l)
      \<and> hll (process_message cfg f s msg) =
          (if v then (hll s)(hll_key cfg lid \<mapsto>
                       insert sid (case hll s (hll_key cfg lid) of None \<Rightarrow> {} | Some vs \<Rightarrow> vs))
           else hll s))
   \<and> ((\<nexists>sid lid ts. deserialize cfg msg = Inr (sid, lid, ts) \<and> bf_exists f s sid = Inr True) \<longrightarrow>
        hll (process_message cfg f s msg) = hll s
        \<and> (\<forall>k x. PfAdded k x \<notin> set (emitted cfg f s msg)))
   \<and> ((\<forall>(f, m) \<in> set ds. \<forall>sid lid ts. deserialize cfg m = Inr (sid, lid, ts) \<longrightarrow> \<not> bloom s sid) \<longrightarrow>
        hll (process_attendance cfg s ds) = hll s
        \<and> (\<forall>k. pfcount cfg (process_attendance cfg s ds) k = pfcount cfg s k))"
proof (intro conjI allI impI)
  fix sid lid ts v
  assume a: "deserialize cfg msg = Inr (sid, lid, ts) \<and> bf_exists f s sid = Inr v
       \<and> Acked (message_id msg) \<in> set (emitted cfg f s msg)"
  then have *: "deserialize cfg msg = Inr (sid, lid, ts)" "bf_exists f s sid = Inr v"
    "Acked (message_id msg) \<in> set (emitted cfg f s msg)" by simp_all
  note r = acked_estimator [OF *]
  from r show "PfAdded (hll_key cfg lid) sid \<in> set (emitted cfg f s msg) \<longleftrightarrow> v" by blast
  from r show "\<exists>l. lid = JStr l \<and> hll_key cfg lid = HLL_KEY_PREFIX cfg @ l" by blast
  from r show "hll (process_message cfg f s msg) =
          (if v then (hll s)(hll_key cfg lid \<mapsto>
                       insert sid (case hll s (hll_key cfg lid) of None \<Rightarrow> {} | Some vs \<Rightarrow> vs))
           else hll s)" by blast
  fix k x assume "PfAdded k x \<in> set (emitted cfg f s msg)"
  with r show "k = hll_key cfg lid" "x = sid" by blast+
next
  assume n: "\<nexists>sid lid ts. deserialize cfg msg = Inr (sid, lid, ts) \<and> bf_exists f s sid = Inr True"
  with hll_changes_only_if_valid [of cfg f s msg]
  show "hll (process_message cfg f s msg) = hll s" by blast
  fix k x
  from n hll_changes_only_if_valid [of cfg f s msg]
  show "PfAdded k x \<notin> set (emitted cfg f s msg)" by blast
next
  assume i: "\<forall>(f, m) \<in> set ds. \<forall>sid lid ts. deserialize cfg m = Inr (sid, lid, ts) \<longrightarrow> \<not> bloom s sid"
  from invalid_run_keeps_hll [OF i]
  show "hll (process_attendance cfg s ds) = hll s" .
  fix k
  from invalid_run_keeps_hll [OF i]
  show "pfcount cfg (process_attendance cfg s ds) k = pfcount cfg s k"
    by (simp add: pfcount_def)
qed


text \<open>
  The known student's entry adds 12345 to the estimator of its lecture; the unknown
  student's attempts add nothing and leave the estimators as they were.
\<close>

theorem estimator_updated_iff_valid_witness:
  "PfAdded ''attendance:hll:LECTURE_20240108'' (JInt 12345)
      \<in> set (emitted sample_config no_faults sample_state \<lparr>message_id = 7, msg_data = entry_payload\<rparr>)
   \<and> PfAdded ''attendance:hll:LECTURE_20240108'' (JInt 654321)
      \<notin> set (emitted sample_config no_faults sample_state \<lparr>message_id = 8, msg_data = invalid_payload\<rparr>)
   \<and> hll (process_attendance sample_config sample_state
        [(no_faults, \<lparr>message_id = 8, msg_data = invalid_payload\<rparr>),
         (no_faults, \<lparr>message_id = 9, msg_data = forged_payload\<rparr>)]) = hll sample_state"
proof -
  let ?entry = "\<lparr>message_id = 7, msg_data = entry_payload\<rparr>"
  let ?invalid = "\<lparr>message_id = 8, msg_data = invalid_payload\<rparr>"
  let ?forged = "\<lparr>message_id = 9, msg_data = forged_payload\<rparr>"
  have pre: "deserialize sample_config ?entry = Inr (JInt 12345, JStr ''LECTURE_20240108'', 1704706200000)
      \<and> bf_exists no_faults sample_state (JInt 12345) = Inr True
      \<and> Acked (message_id ?entry) \<in> set (emitted sample_config no_faults sample_state ?entry)"
    by (simp add: sample_run)
  from estimator_updated_iff_valid [where cfg = sample_config and f = no_faults
      and s = sample_state and msg = ?entry, THEN conjunct1, rule_format, OF pre]
  have "PfAdded (hll_key sample_config (JStr ''LECTURE_20240108'')) (JInt 12345)
      \<in> set (emitted sample_config no_faults sample_state ?entry) \<longleftrightarrow> True"
    by (rule conjunct1)
  then have 1: "PfAdded (hll_key sample_config (JStr ''LECTURE_20240108'')) (JInt 12345)
      \<in> set (emitted sample_config no_faults sample_state ?entry)"
    by (rule iffD2) (rule TrueI)
  have unknown: "\<nexists>sid lid ts. deserialize sample_config ?invalid = Inr (sid, lid, ts)
      \<and> bf_exists no_faults sample_state sid = Inr True"
    by (simp add: sample_run)
  from estimator_updated_iff_valid [where cfg = sample_config and f = no_faults
      and s = sample_state and msg = ?invalid, THEN conjunct2, THEN conjunct1, THEN mp,
      OF unknown]
  have 2: "PfAdded ''attendance:hll:LECTURE_20240108'' (JInt 654321)
      \<notin> set (emitted sample_config no_faults sample_state ?invalid)"
    by simp
  have "\<forall>(f, m) \<in> set [(no_faults, ?invalid), (no_faults, ?forged)].
      \<forall>sid lid ts. deserialize sample_config m = Inr (sid, lid, ts) \<longrightarrow> \<not> bloom sample_state sid"
    by (simp add: sample_deserialize sample_state_def)
  from estimator_updated_iff_valid [where cfg = sample_config and s = sample_state
      and ds = "[(no_faults, ?invalid), (no_faults, ?forged)]",
      THEN conjunct2, THEN conjunct2, THEN mp, OF this]
  have 3: "hll (process_attendance sample_config sample_state
      [(no_faults, ?invalid), (no_faults, ?forged)]) = hll sample_state"
    by simp
  from 1 2 3 show ?thesis by (simp add: hll_key_def sample_config_sel)
qed











section \<open>Properties of the analytics engine\<close>

text \<open>
  Claim C5. On a table with no rows \<^verbatim>\<open>generate_insights\<close> returns the empty list, and
  \<^verbatim>\<open>print_insights\<close> of that list prints the single notice that no data was found.
\<close>

theorem empty_store_no_insights:
  "generate_insights pd [] = []
   \<and> print_insights (generate_insights pd [])
       = [CHR 0x0A # ''No insights available - no attendance data found.'']"
  by (simp add: generate_insights_def fetch_attendance_data_def print_insights_def)


lemma generate_insights_nonempty:
  "fetch_attendance_data table \<noteq> [] \<Longrightarrow>
     generate_insights pd table =
       [habitual_latecomers (fetch_attendance_data table),
        attendance_by_day (fetch_attendance_data table),
        lecture_rankings (sort_values_desc pd) (fetch_attendance_data table),
        consistent_attendees pd (fetch_attendance_data table),
        invalid_attempts (fetch_attendance_data table)]"
  by (simp add: generate_insights_def Let_def)

lemma group_size_iff:
  "(k, c) \<in> set (group_size column df) \<longleftrightarrow>
     c = length (filter (\<lambda>r. column r = k) df) \<and> 0 < c"
  by (auto simp: group_size_def length_greater_0_conv filter_empty_conv)

lemma late_students_iff:
  "(k, c) \<in> set (late_students df) \<longleftrightarrow>
     c = length (filter (\<lambda>r. student_id r = k \<and> late_threshold \<le> hour r) df) \<and> 0 < c"
  by (simp add: late_students_def group_size_iff conj_commute)

lemma frequent_late_iff:
  "(k, c) \<in> set (frequent_late df) \<longleftrightarrow>
     (k, c) \<in> set (late_students df) \<and> exceeds c (median (map snd (late_students df)))"
  by (auto simp: frequent_late_def)

lemma median_551:
  assumes "mset cs = {#5, 5, 1#}"
  shows "median cs = Some 5"
proof -
  have "sort cs = [1, 5, 5]"
    by (rule properties_for_sort) (simp_all add: assms)
  then show ?thesis
    by (simp add: median_def)
qed

lemma frequent_late_551:
  assumes "mset (map snd (late_students df)) = {#5, 5, 1#}"
  shows "frequent_late df = []"
proof -
  have "c \<le> 5" if "c \<in> set (map snd (late_students df))" for c
  proof -
    from that have "c \<in># mset (map snd (late_students df))" by simp
    then show ?thesis unfolding assms by auto
  qed
  then have "\<not> exceeds c (Some 5)" if "(k, c) \<in> set (late_students df)" for k c
    using that by (force simp: exceeds_def)
  then show ?thesis
    by (auto simp: frequent_late_def median_551 [OF assms] filter_empty_conv)
qed

text \<open>
  Claim C6, amended. Habitual Latecomers is the first insight of a table that has rows.
  The late count of a student is the number of the student's events at hour 9 or later;
  the insight reports the students whose late count is strictly greater than the
  median of the late counts. With late counts 5, 5 and 1 the median is 5 and nobody is
  reported, since 5 is not greater than 5.
\<close>

theorem latecomers_exceed_median:
  "(fetch_attendance_data table \<noteq> [] \<longrightarrow>
      hd (generate_insights pd table) = habitual_latecomers (fetch_attendance_data table))
   \<and> ((k, c) \<in> set (late_students df) \<longleftrightarrow>
      c = length (filter (\<lambda>r. student_id r = k \<and> 9 \<le> hour r) df) \<and> 0 < c)
   \<and> ((k, c) \<in> set (frequent_late df) \<longleftrightarrow>
      (k, c) \<in> set (late_students df)
      \<and> (\<exists>m. median (map snd (late_students df)) = Some m \<and> m < of_nat c))
   \<and> data (habitual_latecomers df) = map (\<lambda>(k, c). (KInt k, Count c)) (frequent_late df)
   \<and> (mset (map snd (late_students df)) = {#5, 5, 1#} \<longrightarrow>
        median (map snd (late_students df)) = Some 5 \<and> frequent_late df = []
        \<and> data (habitual_latecomers df) = [])"
proof (intro conjI impI)
  assume "fetch_attendance_data table \<noteq> []"
  then show "hd (generate_insights pd table) = habitual_latecomers (fetch_attendance_data table)"
    by (simp add: generate_insights_nonempty)
next
  show "(k, c) \<in> set (late_students df) \<longleftrightarrow>
      c = length (filter (\<lambda>r. student_id r = k \<and> 9 \<le> hour r) df) \<and> 0 < c"
    using late_students_iff [of k c df] by (simp add: late_threshold_def)
  show "(k, c) \<in> set (frequent_late df) \<longleftrightarrow>
      (k, c) \<in> set (late_students df)
      \<and> (\<exists>m. median (map snd (late_students df)) = Some m \<and> m < of_nat c)"
    by (simp add: frequent_late_iff exceeds_def split: option.splits)
  show "data (habitual_latecomers df) = map (\<lambda>(k, c). (KInt k, Count c)) (frequent_late df)"
    by (simp add: habitual_latecomers_def)
next
  assume a: "mset (map snd (late_students df)) = {#5, 5, 1#}"
  show "median (map snd (late_students df)) = Some 5" by (rule median_551 [OF a])
  show "frequent_late df = []" by (rule frequent_late_551 [OF a])
  then show "data (habitual_latecomers df) = []" by (simp add: habitual_latecomers_def)
qed

text \<open>The sample table has late counts 5, 5 and 1, and nobody is reported.\<close>

theorem latecomers_exceed_median_witness:
  "late_students (fetch_attendance_data late_table) = [(101, 5), (102, 5), (103, 1)]
   \<and> frequent_late (fetch_attendance_data late_table) = []"
proof -
  have l: "late_students (fetch_attendance_data late_table) = [(101, 5), (102, 5), (103, 1)]"
    by code_simp
  then have "mset (map snd (late_students (fetch_attendance_data late_table))) = {#5, 5, 1#}"
    by simp
  from latecomers_exceed_median [where df = "fetch_attendance_data late_table",
      THEN conjunct2, THEN conjunct2, THEN conjunct2, THEN conjunct2, THEN mp, OF this] l
  show ?thesis by simp
qed

text \<open>
  Claim C6 as stated fails: with late counts 5, 5 and 1 the students with count 5 are not
  reported; the insight's data is empty.
\<close>

theorem count_five_not_reported:
  "late_students (fetch_attendance_data late_table) = [(101, 5), (102, 5), (103, 1)]
   \<and> median [5, 5, 1] = Some 5
   \<and> data (habitual_latecomers (fetch_attendance_data late_table)) = []
   \<and> data (habitual_latecomers (fetch_attendance_data late_table))
       \<noteq> [(KInt 101, Count 5), (KInt 102, Count 5)]"
  by code_simp


lemma descending_unique:
  fixes cs :: "nat list"
  assumes "sorted_wrt (\<lambda>a b. b \<le> a) cs" and "mset cs = {#10, 8, 6, 4, 2#}"
  shows "cs = [10, 8, 6, 4, 2]"
proof -
  from assms(1) have "sorted (rev cs)"
    by (simp add: sorted_wrt_rev)
  moreover have "mset (rev cs) = mset [10, 8, 6, 4, 2]"
    by (simp add: assms(2))
  ultimately have "sort [10, 8, 6, 4, 2] = rev cs"
    by (intro properties_for_sort)
  then have "rev cs = [2, 4, 6, 8, 10]" by simp
  then have "rev (rev cs) = rev [2, 4, 6, 8, 10]" by (rule arg_cong)
  then show ?thesis by simp
qed

lemma rankings_5:
  assumes p: "mset (srt (group_size lecture_id df)) = mset (group_size lecture_id df)"
    and d: "sorted_wrt (\<lambda>a b. snd b \<le> snd a) (srt (group_size lecture_id df))"
    and c: "mset (map snd (group_size lecture_id df)) = {#10, 8, 6, 4, 2#}"
  shows "map snd (most_attended srt df) = [10, 8, 6]"
    and "map snd (least_attended srt df) = [6, 4, 2]"
    and "last (most_attended srt df) = hd (least_attended srt df)"
proof -
  let ?la = "lecture_attendance srt df"
  from d have "sorted_wrt (\<lambda>a b. b \<le> a) (map snd ?la)"
    by (simp add: lecture_attendance_def sorted_wrt_map)
  moreover from p c have "mset (map snd ?la) = {#10, 8, 6, 4, 2#}"
    by (metis lecture_attendance_def mset_map)
  ultimately have m: "map snd ?la = [10, 8, 6, 4, 2]"
    by (rule descending_unique)
  have "length (map snd ?la) = 5" unfolding m by simp
  then have "length ?la = 5" by simp
  then obtain a b c d e where la: "?la = [a, b, c, d, e]"
    by (auto simp: length_Suc_conv numeral_eq_Suc)
  from m la show "map snd (most_attended srt df) = [10, 8, 6]"
    by (simp add: most_attended_def)
  from m la show "map snd (least_attended srt df) = [6, 4, 2]"
    by (simp add: least_attended_def)
  from la show "last (most_attended srt df) = hd (least_attended srt df)"
    by (simp add: most_attended_def least_attended_def)
qed

lemma rankings_small:
  assumes p: "mset (srt (group_size lecture_id df)) = mset (group_size lecture_id df)"
    and n: "length (group_size lecture_id df) \<le> 3"
  shows "most_attended srt df = lecture_attendance srt df"
    and "least_attended srt df = lecture_attendance srt df"
    and "set (lecture_attendance srt df) = set (group_size lecture_id df)"
proof -
  from p have "length (lecture_attendance srt df) = length (group_size lecture_id df)"
    unfolding lecture_attendance_def by (rule mset_eq_length)
  with n have l: "length (lecture_attendance srt df) \<le> 3" by simp
  then show "most_attended srt df = lecture_attendance srt df"
    by (simp add: most_attended_def)
  from l show "least_attended srt df = lecture_attendance srt df"
    by (simp add: least_attended_def)
  from p show "set (lecture_attendance srt df) = set (group_size lecture_id df)"
    unfolding lecture_attendance_def by (rule mset_eq_setD)
qed


text \<open>
  Claim C7. Lecture Attendance Rankings is the third insight of a table that has rows.
  For any sort that returns the tally reordered and descending by count, the rankings are the first three and the last three entries of the sorted tally of events per
  lecture. With counts 10, 8, 6, 4 and 2 the most attended have counts 10, 8, 6 and the
  least attended 6, 4, 2, the middle lecture closing the first list and opening the second;
  with three lectures or fewer both lists are the whole sorted tally.
\<close>

theorem rankings_head_and_tail:
  assumes "mset (srt (group_size lecture_id df)) = mset (group_size lecture_id df)"
    and "sorted_wrt (\<lambda>a b. snd b \<le> snd a) (srt (group_size lecture_id df))"
  shows "(fetch_attendance_data table \<noteq> [] \<longrightarrow>
        generate_insights pd table ! 2
          = lecture_rankings (sort_values_desc pd) (fetch_attendance_data table))
    \<and> data (lecture_rankings srt df) =
        [(KStr ''most_attended'', Nested (map (\<lambda>(k, c). (KStr k, c)) (most_attended srt df))),
         (KStr ''least_attended'', Nested (map (\<lambda>(k, c). (KStr k, c)) (least_attended srt df)))]
    \<and> most_attended srt df = take 3 (lecture_attendance srt df)
    \<and> least_attended srt df
        = drop (length (lecture_attendance srt df) - 3) (lecture_attendance srt df)
    \<and> sorted_wrt (\<lambda>a b. snd b \<le> snd a) (lecture_attendance srt df)
    \<and> (\<forall>l c. (l, c) \<in> set (lecture_attendance srt df) \<longleftrightarrow>
          c = length (filter (\<lambda>r. lecture_id r = l) df) \<and> 0 < c)
    \<and> (mset (map snd (group_size lecture_id df)) = {#10, 8, 6, 4, 2#} \<longrightarrow>
          map snd (most_attended srt df) = [10, 8, 6]
          \<and> map snd (least_attended srt df) = [6, 4, 2]
          \<and> last (most_attended srt df) = hd (least_attended srt df))
    \<and> (length (group_size lecture_id df) \<le> 3 \<longrightarrow>
          most_attended srt df = lecture_attendance srt df
          \<and> least_attended srt df = lecture_attendance srt df
          \<and> set (lecture_attendance srt df) = set (group_size lecture_id df))"
proof (intro conjI allI impI)
  assume "fetch_attendance_data table \<noteq> []"
  then show "generate_insights pd table ! 2
      = lecture_rankings (sort_values_desc pd) (fetch_attendance_data table)"
    by (simp add: generate_insights_nonempty)
next
  show "data (lecture_rankings srt df) =
      [(KStr ''most_attended'', Nested (map (\<lambda>(k, c). (KStr k, c)) (most_attended srt df))),
       (KStr ''least_attended'', Nested (map (\<lambda>(k, c). (KStr k, c)) (least_attended srt df)))]"
    by (simp add: lecture_rankings_def)
  show "most_attended srt df = take 3 (lecture_attendance srt df)"
    by (simp add: most_attended_def)
  show "least_attended srt df
      = drop (length (lecture_attendance srt df) - 3) (lecture_attendance srt df)"
    by (simp add: least_attended_def)
  from assms(2) show "sorted_wrt (\<lambda>a b. snd b \<le> snd a) (lecture_attendance srt df)"
    by (simp add: lecture_attendance_def)
  fix l c
  from assms(1) have "set (lecture_attendance srt df) = set (group_size lecture_id df)"
    unfolding lecture_attendance_def by (rule mset_eq_setD)
  then show "(l, c) \<in> set (lecture_attendance srt df) \<longleftrightarrow>
      c = length (filter (\<lambda>r. lecture_id r = l) df) \<and> 0 < c"
    by (simp add: group_size_iff)
next
  assume c: "mset (map snd (group_size lecture_id df)) = {#10, 8, 6, 4, 2#}"
  from rankings_5 [where srt = srt and df = df, OF assms c]
  show "map snd (most_attended srt df) = [10, 8, 6]"
    and "map snd (least_attended srt df) = [6, 4, 2]"
    and "last (most_attended srt df) = hd (least_attended srt df)" .
next
  assume n: "length (group_size lecture_id df) \<le> 3"
  from rankings_small [where srt = srt and df = df, OF assms(1) n]
  show "most_attended srt df = lecture_attendance srt df"
    and "least_attended srt df = lecture_attendance srt df"
    and "set (lecture_attendance srt df) = set (group_size lecture_id df)" .
qed

text \<open>
  The table of five lectures under the sample sort, and the one-lecture table.
\<close>

theorem rankings_head_and_tail_witness:
  "map snd (most_attended stable_sort_desc (fetch_attendance_data ranking_table)) = [10, 8, 6]
   \<and> map snd (least_attended stable_sort_desc (fetch_attendance_data ranking_table)) = [6, 4, 2]
   \<and> most_attended stable_sort_desc (fetch_attendance_data late_table)
       = lecture_attendance stable_sort_desc (fetch_attendance_data late_table)
   \<and> least_attended stable_sort_desc (fetch_attendance_data late_table)
       = lecture_attendance stable_sort_desc (fetch_attendance_data late_table)"
proof -
  let ?five = "fetch_attendance_data ranking_table"
  let ?one = "fetch_attendance_data late_table"
  have g5: "group_size lecture_id ?five =
      [(''LECTURE_20240108'', 10), (''LECTURE_20240109'', 8), (''LECTURE_20240110'', 6),
       (''LECTURE_20240111'', 4), (''LECTURE_20240112'', 2)]"
    by code_simp
  have s5: "stable_sort_desc (group_size lecture_id ?five) = group_size lecture_id ?five"
    unfolding g5 by code_simp
  have p5: "mset (stable_sort_desc (group_size lecture_id ?five)) = mset (group_size lecture_id ?five)"
    by (simp only: s5)
  have d5: "sorted_wrt (\<lambda>a b. snd b \<le> snd a) (stable_sort_desc (group_size lecture_id ?five))"
    unfolding s5 unfolding g5 by simp
  have c5: "mset (map snd (group_size lecture_id ?five)) = {#10, 8, 6, 4, 2#}"
    unfolding g5 by simp
  note five = rankings_head_and_tail [where srt = stable_sort_desc and df = ?five, OF p5 d5, THEN conjunct2, THEN conjunct2, THEN conjunct2,
      THEN conjunct2, THEN conjunct2, THEN conjunct2, THEN conjunct1, THEN mp, OF c5]
  have g1: "group_size lecture_id ?one = [(''LECTURE_20240108'', 11)]"
    by code_simp
  have s1: "stable_sort_desc (group_size lecture_id ?one) = group_size lecture_id ?one"
    unfolding g1 by code_simp
  have p1: "mset (stable_sort_desc (group_size lecture_id ?one)) = mset (group_size lecture_id ?one)"
    by (simp only: s1)
  have d1: "sorted_wrt (\<lambda>a b. snd b \<le> snd a) (stable_sort_desc (group_size lecture_id ?one))"
    unfolding s1 unfolding g1 by simp
  have n1: "length (group_size lecture_id ?one) \<le> 3"
    unfolding g1 by simp
  note one = rankings_head_and_tail [where srt = stable_sort_desc and df = ?one, OF p1 d1, THEN conjunct2, THEN conjunct2, THEN conjunct2,
      THEN conjunct2, THEN conjunct2, THEN conjunct2, THEN conjunct2, THEN mp, OF n1]
  from five one show ?thesis by blast
qed

end
